theory Spec2Isabelle
  imports Complex_Main "HOL-Library.AList"
begin

section \<open>The initializer script \<^verbatim>\<open>init.js\<close>\<close>

text \<open>
  \<^verbatim>\<open>init.js\<close> is one top-to-bottom script: it checks its argument, runs nine external
  commands with \<^verbatim>\<open>execSync\<close>, changes the working directory after the first of them,
  writes six configuration files and rewrites \<^verbatim>\<open>package.json\<close> twice.  The model runs
  the same statements in the same order over an explicit state (working directory,
  files, and the trace of everything the script did), against an environment that
  answers for everything the script does not decide itself: the command line, the
  platform, what the external commands do, and which file-system calls throw.
\<close>

subsection \<open>JSON values\<close>

text \<open>
  The values \<^verbatim>\<open>JSON.parse\<close> returns.  An object is the list of its own properties in
  property order; a property is looked up with \<^const>\<open>map_of\<close>.  Strings are lists of
  \<^typ>\<open>char\<close>, one per code unit for the ASCII text the script itself handles.  A number
  is finite, or it is \<^verbatim>\<open>Infinity\<close> or \<^verbatim>\<open>-Infinity\<close> (the flag says which: set for the
  negative one), which is what \<^verbatim>\<open>JSON.parse\<close> returns for a number literal beyond the
  range of a double, such as \<^verbatim>\<open>1e400\<close>.
\<close>

datatype json =
    JNull
  | JBool bool
  | JNum rat
  | JInf bool
  | JStr string
  | JArr "json list"
  | JObj "(string \<times> json) list"

text \<open>
  \<^verbatim>\<open>JSON.stringify\<close> prints \<^verbatim>\<open>null\<close> for an infinite number, wherever it stands, and every
  other value so that \<^verbatim>\<open>JSON.parse\<close> reads it back.  \<open>printed v\<close> is the value that the
  text printed for \<open>v\<close> parses to.
\<close>

fun printed :: "json \<Rightarrow> json" where
  "printed (JInf b) = JNull"
| "printed (JArr xs) = JArr (map printed xs)"
| "printed (JObj ps) = JObj (map (\<lambda>(k, v). (k, printed v)) ps)"
| "printed j = j"

datatype exn =
    TypeError
  | SyntaxError
  | FsError string "string list \<times> string"

text \<open>The decimal name of an array index, as a property key.\<close>

fun digit :: "nat \<Rightarrow> char" where
  "digit n = char_of (48 + n)"

fun index_key :: "nat \<Rightarrow> string" where
  "index_key n = (if n < 10 then [digit n] else index_key (n div 10) @ [digit (n mod 10)])"

text \<open>
  \<^verbatim>\<open>obj[key] = value\<close> in sloppy mode (the script has no \<^verbatim>\<open>'use strict'\<close>), for a key
  that is not an array index, seen through what \<^verbatim>\<open>JSON.stringify\<close> later prints:
  on \<^verbatim>\<open>null\<close> it throws a TypeError; on an object it overwrites the property in place or
  appends it; on an array the new property is not an element and is not printed; on a
  number, string or boolean the assignment is silently dropped.
\<close>

fun set_prop :: "json \<Rightarrow> string \<Rightarrow> json \<Rightarrow> exn + json" where
  "set_prop JNull k v = Inl TypeError"
| "set_prop (JObj ps) k v = Inr (JObj (AList.update k v ps))"
| "set_prop j k v = Inr j"

text \<open>
  \<^verbatim>\<open>obj.key\<close> for a key that is neither an array index nor \<^verbatim>\<open>length\<close> nor inherited from
  a prototype: \<^verbatim>\<open>None\<close> is \<^verbatim>\<open>undefined\<close>.
\<close>

fun get_prop :: "json \<Rightarrow> string \<Rightarrow> exn + json option" where
  "get_prop JNull k = Inl TypeError"
| "get_prop (JObj ps) k = Inr (map_of ps k)"
| "get_prop j k = Inr None"

text \<open>
  The properties that \<^verbatim>\<open>{...x}\<close> copies: the own properties of an object, the elements of
  an array and the characters of a string under their indices, nothing for \<^verbatim>\<open>undefined\<close>,
  \<^verbatim>\<open>null\<close>, a number or a boolean.
\<close>

fun spread :: "json option \<Rightarrow> (string \<times> json) list" where
  "spread (Some (JObj ps)) = ps"
| "spread (Some (JArr xs)) = zip (map index_key [0..<length xs]) xs"
| "spread (Some (JStr s)) = zip (map index_key [0..<length s]) (map (\<lambda>c. JStr [c]) s)"
| "spread _ = []"

subsection \<open>State, trace and environment\<close>

text \<open>
  A directory is named by the \<^verbatim>\<open>process.chdir\<close> arguments that lead to it from the
  directory the script was started in; a file by a directory and the path the script
  used from there.  A file holds either plain text, or a JSON text, kept as the value
  that \<^verbatim>\<open>JSON.parse\<close> reads from it.  \<open>Json_text v\<close> is the text that
  \<^verbatim>\<open>JSON.stringify(v, null, 2)\<close> prints for a value \<open>v\<close>.
\<close>

type_synonym dir = "string list"
type_synonym path = "dir \<times> string"

datatype content = Text string | Json_doc json

definition Json_text :: "json \<Rightarrow> content" where
  "Json_text v = Json_doc (printed v)"

datatype proc_status = Status nat | Killed | Hangs

datatype event =
    Stdout string
  | Stderr string
  | Exec string dir proc_status
  | Chdir string
  | Write_file path content
  | Mkdir path
  | Chmod path string
  | Threw exn

record state =
  cwd :: dir
  files :: "path \<rightharpoonup> content"
  trace :: "event list"

datatype outcome = Completed | Exited nat | Crashed exn | Hung

datatype result = Next state | Halt outcome state

text \<open>
  The environment: \<open>argv\<close> is \<^verbatim>\<open>process.argv\<close> from index 2 on; \<open>exec\<close> says how an
  external command ends and what files it leaves; \<open>throws\<close> says whether a file-system
  call (named as in \<^verbatim>\<open>fs\<close>) on a path throws; \<open>exists_sync\<close> answers \<^verbatim>\<open>fs.existsSync\<close>;
  \<open>parse_text\<close> is \<^verbatim>\<open>JSON.parse\<close> on plain text, \<open>None\<close> for a syntax error.
\<close>

record env =
  argv :: "string list"
  platform :: string
  init_files :: "path \<rightharpoonup> content"
  exec :: "string \<Rightarrow> state \<Rightarrow> proc_status \<times> (path \<rightharpoonup> content)"
  throws :: "string \<Rightarrow> path \<Rightarrow> state \<Rightarrow> bool"
  exists_sync :: "path \<Rightarrow> state \<Rightarrow> bool"
  parse_text :: "string \<Rightarrow> json option"

definition emit :: "event list \<Rightarrow> state \<Rightarrow> state" where
  "emit evs s = s\<lparr>trace := trace s @ evs\<rparr>"

definition crash :: "exn \<Rightarrow> state \<Rightarrow> result" where
  "crash e s = Halt (Crashed e) (emit [Threw e] s)"

fun run_steps :: "(state \<Rightarrow> result) list \<Rightarrow> state \<Rightarrow> result" where
  "run_steps [] s = Next s"
| "run_steps (f # fs) s = (case f s of Next s' \<Rightarrow> run_steps fs s' | Halt out s' \<Rightarrow> Halt out s')"

subsection \<open>Console output and external commands\<close>

definition colors_reset :: string where "colors_reset = CHR 0x1B # ''[0m''"
definition colors_green :: string where "colors_green = CHR 0x1B # ''[32m''"
definition colors_blue :: string where "colors_blue = CHR 0x1B # ''[34m''"
definition colors_yellow :: string where "colors_yellow = CHR 0x1B # ''[33m''"

definition console_log :: "string \<Rightarrow> state \<Rightarrow> result" where
  "console_log line s = Next (emit [Stdout line] s)"

definition printMessage :: "string \<Rightarrow> state \<Rightarrow> result" where
  "printMessage message =
     console_log (colors_blue @ ''==>'' @ colors_reset @ '' '' @ colors_green @ message @ colors_reset)"

definition printWarning :: "string \<Rightarrow> state \<Rightarrow> result" where
  "printWarning message =
     console_log (colors_yellow @ ''Warning:'' @ colors_reset @ '' '' @ message)"

text \<open>
  \<^verbatim>\<open>execSync\<close> blocks until the command ends and throws unless it ended with status 0;
  \<open>executeCommand\<close> catches that, names the command on the error stream and exits with
  status 1.  No caller passes \<^verbatim>\<open>options\<close>.
\<close>

definition executeCommand :: "env \<Rightarrow> string \<Rightarrow> state \<Rightarrow> result" where
  "executeCommand e command s =
     (let (st, fs) = exec e command s;
          s' = emit [Exec command (cwd s) st] (s\<lparr>files := fs\<rparr>)
      in case st of
           Hangs \<Rightarrow> Halt Hung s'
         | Status n \<Rightarrow>
             if n = 0 then Next s'
             else Halt (Exited 1) (emit [Stderr (''Failed to execute: '' @ command)] s')
         | Killed \<Rightarrow> Halt (Exited 1) (emit [Stderr (''Failed to execute: '' @ command)] s'))"

subsection \<open>File-system calls\<close>

definition chdir :: "env \<Rightarrow> string \<Rightarrow> state \<Rightarrow> result" where
  "chdir e d s =
     (if throws e ''chdir'' (cwd s, d) s then crash (FsError ''chdir'' (cwd s, d)) s
      else Next (emit [Chdir d] (s\<lparr>cwd := cwd s @ [d]\<rparr>)))"

definition path_join :: "env \<Rightarrow> string \<Rightarrow> string \<Rightarrow> string" where
  "path_join e a b = a @ (if platform e = ''win32'' then [CHR 0x5C] else ''/'') @ b"

definition writeFileSync :: "env \<Rightarrow> string \<Rightarrow> content \<Rightarrow> state \<Rightarrow> result" where
  "writeFileSync e p c s =
     (if throws e ''writeFileSync'' (cwd s, p) s then crash (FsError ''writeFileSync'' (cwd s, p)) s
      else Next (emit [Write_file (cwd s, p) c] (s\<lparr>files := (files s)((cwd s, p) \<mapsto> c)\<rparr>)))"

definition readFileSync :: "env \<Rightarrow> string \<Rightarrow> state \<Rightarrow> exn + content" where
  "readFileSync e p s =
     (if throws e ''readFileSync'' (cwd s, p) s then Inl (FsError ''readFileSync'' (cwd s, p))
      else case files s (cwd s, p) of
             None \<Rightarrow> Inl (FsError ''readFileSync'' (cwd s, p))
           | Some c \<Rightarrow> Inr c)"

definition JSON_parse :: "env \<Rightarrow> content \<Rightarrow> exn + json" where
  "JSON_parse e c =
     (case c of
        Json_doc v \<Rightarrow> Inr v
      | Text t \<Rightarrow> (case parse_text e t of None \<Rightarrow> Inl SyntaxError | Some v \<Rightarrow> Inr v))"

subsection \<open>The files the script writes\<close>

definition tailwindConfig :: string where
  \<open>tailwindConfig =
     ''\<newline>'' @
     ''    {\<newline>'' @
     ''        "plugins": {\<newline>'' @
     ''            "@tailwindcss/postcss": {}\<newline>'' @
     ''        }\<newline>'' @
     ''    }\<newline>''\<close>

definition stylesScss :: string where
  \<open>stylesScss =
     ''\<newline>'' @
     ''    /* Tailwind CSS */\<newline>'' @
     ''    @use "tailwindcss";\<newline>''\<close>

definition prettierConfig :: json where
  "prettierConfig = JObj
     [(''tabWidth'', JNum 2),
      (''endOfLine'', JStr ''auto''),
      (''proseWrap'', JStr ''preserve''),
      (''useTabs'', JBool False),
      (''singleQuote'', JBool True),
      (''semi'', JBool True),
      (''bracketSpacing'', JBool True),
      (''arrowParens'', JStr ''avoid''),
      (''trailingComma'', JStr ''es5''),
      (''bracketSameLine'', JBool True),
      (''printWidth'', JNum 80),
      (''overrides'', JArr
         [JObj [(''files'', JStr ''*.html''),
                (''options'', JObj [(''parser'', JStr ''angular'')])]])]"

definition prettierIgnore :: string where
  \<open>prettierIgnore =
     ''node_modules\<newline>'' @
     ''dist\<newline>'' @
     ''coverage\<newline>'' @
     ''.angular\<newline>'' @
     ''*.min.js\<newline>'' @
     ''*.min.css\<newline>'' @
     ''package-lock.json\<newline>''\<close>

definition eslintConfig :: string where
  \<open>eslintConfig =
     ''\<newline>'' @
     ''  // @ts-check\<newline>'' @
     ''  const eslint = require('@eslint/js');\<newline>'' @
     ''  const tseslint = require('typescript-eslint');\<newline>'' @
     ''  const angular = require('angular-eslint');\<newline>'' @
     ''  const eslintPluginPrettierRecommended = require('eslint-plugin-prettier/recommended');\<newline>'' @
     ''  const eslintPluginUnusedImport = require('eslint-plugin-unused-imports');\<newline>'' @
     ''  const eslintPluginSimpleImportSort = require('eslint-plugin-simple-import-sort');\<newline>'' @
     ''  module.exports = tseslint.config(\<newline>'' @
     ''    {\<newline>'' @
     ''      files: ['**/*.ts'],\<newline>'' @
     ''      extends: [\<newline>'' @
     ''        eslint.configs.recommended,\<newline>'' @
     ''        ...tseslint.configs.recommended,\<newline>'' @
     ''        ...tseslint.configs.stylistic,\<newline>'' @
     ''        ...angular.configs.tsRecommended,\<newline>'' @
     ''        eslintPluginPrettierRecommended,\<newline>'' @
     ''      ],\<newline>'' @
     ''      plugins: {\<newline>'' @
     ''        'unused-imports': eslintPluginUnusedImport,\<newline>'' @
     ''        'simple-import-sort': eslintPluginSimpleImportSort,\<newline>'' @
     ''      },\<newline>'' @
     ''      processor: angular.processInlineTemplates,\<newline>'' @
     ''      rules: {\<newline>'' @
     ''        '@angular-eslint/directive-selector': [\<newline>'' @
     ''          'error',\<newline>'' @
     ''          {\<newline>'' @
     ''            type: 'attribute',\<newline>'' @
     ''            prefix: 'app',\<newline>'' @
     ''            style: 'camelCase',\<newline>'' @
     ''          },\<newline>'' @
     ''        ],\<newline>'' @
     ''        '@angular-eslint/component-selector': [\<newline>'' @
     ''          'error',\<newline>'' @
     ''          {\<newline>'' @
     ''            type: 'element',\<newline>'' @
     ''            prefix: 'app',\<newline>'' @
     ''            style: 'kebab-case',\<newline>'' @
     ''          },\<newline>'' @
     ''        ],\<newline>'' @
     ''        'prettier/prettier': [\<newline>'' @
     ''          'error',\<newline>'' @
     ''          {\<newline>'' @
     ''            endOfLine: 'auto', // Automatically handles line endings\<newline>'' @
     ''          },\<newline>'' @
     ''        ],\<newline>'' @
     ''        '@typescript-eslint/no-unused-vars': 'off',\<newline>'' @
     ''        'unused-imports/no-unused-imports': 'error',\<newline>'' @
     ''        'unused-imports/no-unused-vars': [\<newline>'' @
     ''          'warn',\<newline>'' @
     ''          {\<newline>'' @
     ''            vars: 'all',\<newline>'' @
     ''            varsIgnorePattern: '^_',\<newline>'' @
     ''            args: 'after-used',\<newline>'' @
     ''            argsIgnorePattern: '^_',\<newline>'' @
     ''          },\<newline>'' @
     ''        ],\<newline>'' @
     ''        'simple-import-sort/imports': 'warn',\<newline>'' @
     ''        'simple-import-sort/exports': 'warn',\<newline>'' @
     ''      },\<newline>'' @
     ''    },\<newline>'' @
     ''    {\<newline>'' @
     ''      files: ['**/*.html'],\<newline>'' @
     ''      extends: [\<newline>'' @
     ''        ...angular.configs.templateRecommended,\<newline>'' @
     ''        ...angular.configs.templateAccessibility,\<newline>'' @
     ''      ],\<newline>'' @
     ''      rules: {},\<newline>'' @
     ''    }\<newline>'' @
     ''  );\<newline>''\<close>

definition lint_staged :: json where
  "lint_staged = JObj
     [(''*.ts'', JArr [JStr ''eslint --fix'', JStr ''prettier --write'']),
      (''*.html'', JArr [JStr ''prettier --write'']),
      (''*.scss'', JArr [JStr ''prettier --write''])]"

definition preCommitHook :: string where
  \<open>preCommitHook =
     ''npx lint-staged\<newline>''\<close>

subsection \<open>The steps that rewrite \<^verbatim>\<open>package.json\<close> and install the hook\<close>

text \<open>
  \<^verbatim>\<open>packageJson['lint-staged'] = {...}\<close> between a read and a write of the whole file.
  Any exception of the three calls is uncaught and ends the process.
\<close>

definition configure_lint_staged :: "env \<Rightarrow> state \<Rightarrow> result" where
  "configure_lint_staged e s =
     (case readFileSync e ''package.json'' s of
        Inl x \<Rightarrow> crash x s
      | Inr c \<Rightarrow>
          (case JSON_parse e c of
             Inl x \<Rightarrow> crash x s
           | Inr packageJson \<Rightarrow>
               (case set_prop packageJson ''lint-staged'' lint_staged of
                  Inl x \<Rightarrow> crash x s
                | Inr packageJson' \<Rightarrow> writeFileSync e ''package.json'' (Json_text packageJson') s)))"

text \<open>
  The object literal \<^verbatim>\<open>{...scripts, lint: .., 'lint:fix': .., format: ..}\<close>: the copied
  properties first, then the three named ones in order, each overwriting a copied
  property of its name where there is one.
\<close>

definition merged_scripts :: "json option \<Rightarrow> json" where
  \<open>merged_scripts scripts = JObj
     (AList.update ''format'' (JStr ''prettier --write "src/**/*.{ts,html,scss}"'')
       (AList.update ''lint:fix'' (JStr ''ng lint --fix'')
         (AList.update ''lint'' (JStr ''ng lint'')
           (spread scripts))))\<close>

definition update_scripts :: "json \<Rightarrow> exn + json" where
  "update_scripts updatedPackageJson =
     (case get_prop updatedPackageJson ''scripts'' of
        Inl x \<Rightarrow> Inl x
      | Inr scripts \<Rightarrow> set_prop updatedPackageJson ''scripts'' (merged_scripts scripts))"

definition add_npm_scripts :: "env \<Rightarrow> state \<Rightarrow> result" where
  "add_npm_scripts e s =
     (case readFileSync e ''package.json'' s of
        Inl x \<Rightarrow> crash x s
      | Inr c \<Rightarrow>
          (case JSON_parse e c of
             Inl x \<Rightarrow> crash x s
           | Inr updatedPackageJson \<Rightarrow>
               (case update_scripts updatedPackageJson of
                  Inl x \<Rightarrow> crash x s
                | Inr updatedPackageJson' \<Rightarrow>
                    writeFileSync e ''package.json'' (Json_text updatedPackageJson') s)))"

definition huskyDir :: string where
  "huskyDir = ''.husky''"

definition ensure_huskyDir :: "env \<Rightarrow> state \<Rightarrow> result" where
  "ensure_huskyDir e s =
     (if \<not> exists_sync e (cwd s, huskyDir) s then
        (if throws e ''mkdirSync'' (cwd s, huskyDir) s then crash (FsError ''mkdirSync'' (cwd s, huskyDir)) s
         else Next (emit [Mkdir (cwd s, huskyDir)] s))
      else Next s)"

text \<open>The only \<^verbatim>\<open>try\<close> around a file-system call: a failing \<^verbatim>\<open>chmodSync\<close> is caught.\<close>

definition make_executable :: "env \<Rightarrow> string \<Rightarrow> state \<Rightarrow> result" where
  "make_executable e p s =
     (if platform e \<noteq> ''win32'' then
        (if throws e ''chmodSync'' (cwd s, p) s
         then printWarning ''Could not make pre-commit hook executable''
                (emit [Threw (FsError ''chmodSync'' (cwd s, p))] s)
         else Next (emit [Chmod (cwd s, p) ''755''] s))
      else Next s)"

subsection \<open>The script\<close>

text \<open>The two non-ASCII characters of the closing messages, as the UTF-8 bytes printed.\<close>

definition sparkles :: string where "sparkles = [CHR 0xE2, CHR 0x9C, CHR 0xA8]"
definition check_mark :: string where "check_mark = [CHR 0xE2, CHR 0x9C, CHR 0x93]"

definition usage :: "event list" where
  "usage =
     [Stderr ''Usage: npx ng-create-with-config <project-name>'',
      Stderr ''   or: node init.js <project-name>'']"

definition summary :: "string \<Rightarrow> (state \<Rightarrow> result) list" where
  "summary projectName =
     [printMessage (sparkles @ '' Project setup complete! '' @ sparkles),
      console_log [],
      console_log ''Your Angular project is ready with:'',
      console_log (''  '' @ check_mark @ '' Angular with routing and SCSS''),
      console_log (''  '' @ check_mark @ '' Tailwind CSS''),
      console_log (''  '' @ check_mark @ '' ESLint with Angular rules''),
      console_log (''  '' @ check_mark @ '' Prettier''),
      console_log (''  '' @ check_mark @ '' lint-staged with Husky pre-commit hooks''),
      console_log [],
      console_log ''Available commands:'',
      console_log ''  npm start          - Start development server'',
      console_log ''  npm run lint       - Run ESLint'',
      console_log ''  npm run lint:fix   - Fix ESLint issues'',
      console_log ''  npm run format     - Format code with Prettier'',
      console_log ''  npm run format:check - Check code formatting'',
      console_log [],
      console_log ''Get started:'',
      console_log (''  cd '' @ projectName),
      console_log ''  npm start'']"

definition ng_new :: "string \<Rightarrow> string" where
  "ng_new projectName = ''ng new '' @ projectName @ '' --routing --style=scss --skip-git''"

definition pipeline :: "env \<Rightarrow> string \<Rightarrow> (state \<Rightarrow> result) list" where
  "pipeline e projectName =
     [printMessage (''Creating Angular project: '' @ projectName),
      executeCommand e (ng_new projectName),
      chdir e projectName,
      printMessage ''Installing dependencies...'',
      executeCommand e ''npm install tailwindcss @tailwindcss/postcss postcss'',
      executeCommand e ''npm install -D @angular-eslint/schematics'',
      executeCommand e ''ng add @angular-eslint/schematics --skip-confirmation'',
      executeCommand e ''npm install prettier prettier-eslint eslint-config-prettier eslint-plugin-prettier --save-dev'',
      executeCommand e ''npm install eslint-plugin-unused-imports --save-dev'',
      executeCommand e ''npm install eslint-plugin-simple-import-sort --save-dev'',
      executeCommand e ''npm install -D lint-staged husky'',
      executeCommand e ''npx husky init'',
      printMessage ''Configuring Tailwind CSS...'',
      writeFileSync e ''.postcssrc.json'' (Text tailwindConfig),
      writeFileSync e (path_join e ''src'' ''styles.scss'') (Text stylesScss),
      printMessage ''Configuring Prettier...'',
      writeFileSync e ''.prettierrc'' (Json_text prettierConfig),
      writeFileSync e ''.prettierignore'' (Text prettierIgnore),
      printMessage ''Configuring ESLint, Prettier, Unused Imports and Simple Sort Imports...'',
      writeFileSync e ''eslint.config.js'' (Text eslintConfig),
      printMessage ''Configuring lint-staged...'',
      configure_lint_staged e,
      printMessage ''Setting up Husky pre-commit hook...'',
      ensure_huskyDir e,
      writeFileSync e (path_join e huskyDir ''pre-commit'') (Text preCommitHook),
      make_executable e (path_join e huskyDir ''pre-commit''),
      printMessage ''Adding npm scripts...'',
      add_npm_scripts e]
     @ summary projectName"

text \<open>
  \<^verbatim>\<open>process.argv[2]\<close> is \<^verbatim>\<open>undefined\<close> when no argument is given; \<^verbatim>\<open>!projectName\<close> holds
  for \<^verbatim>\<open>undefined\<close> and for the empty string.  Reaching the end of the script is exit
  status 0.
\<close>

definition start :: "env \<Rightarrow> state" where
  "start e = \<lparr>cwd = [], files = init_files e, trace = []\<rparr>"

definition usage_exit :: "env \<Rightarrow> outcome \<times> state" where
  "usage_exit e = (Exited 1, emit usage (start e))"

definition main :: "env \<Rightarrow> outcome \<times> state" where
  "main e =
     (case (case argv e of [] \<Rightarrow> None | a # _ \<Rightarrow> Some a) of
        None \<Rightarrow> usage_exit e
      | Some projectName \<Rightarrow>
          if projectName = [] then usage_exit e
          else (case run_steps (pipeline e projectName) (start e) of
                  Next s \<Rightarrow> (Completed, s)
                | Halt out s \<Rightarrow> (out, s)))"

section \<open>Notions used to state and prove the properties\<close>

subsection \<open>Summaries of a step\<close>

fun final :: "result \<Rightarrow> state" where
  "final (Next s) = s"
| "final (Halt out s) = s"

text \<open>A step stays in its directory: it changes to no other, and runs its commands there.\<close>

fun runs_in :: "dir \<Rightarrow> event \<Rightarrow> bool" where
  "runs_in d (Exec c d' st) = (d' = d)"
| "runs_in d (Chdir p) = False"
| "runs_in d ev = True"

definition stays :: "(state \<Rightarrow> result) \<Rightarrow> bool" where
  "stays f \<longleftrightarrow>
     (\<forall>s. cwd (final (f s)) = cwd s \<and>
        (\<exists>evs. trace (final (f s)) = trace s @ evs \<and> list_all (runs_in (cwd s)) evs))"

text \<open>A step keeps the file \<open>p\<close> of its directory when it goes on without touching it.\<close>

definition keeps :: "string \<Rightarrow> (state \<Rightarrow> result) \<Rightarrow> bool" where
  "keeps p f \<longleftrightarrow>
     (\<forall>s s'. f s = Next s' \<longrightarrow> cwd s' = cwd s \<and> files s' (cwd s, p) = files s (cwd s, p))"

subsection \<open>Parts of the script\<close>

text \<open>
  The script up to and including \<^verbatim>\<open>process.chdir\<close>, and the rest; the rest up to the write
  of \<^verbatim>\<open>.prettierrc\<close>, and what follows that write; the script before and after the
  \<^verbatim>\<open>chmodSync\<close> block; the script before the first rewrite of the manifest, and the three
  steps between that rewrite and the \<^verbatim>\<open>chmodSync\<close> block.
\<close>

definition generation :: "env \<Rightarrow> string \<Rightarrow> (state \<Rightarrow> result) list" where
  "generation e projectName = take 3 (pipeline e projectName)"

definition configuration :: "env \<Rightarrow> string \<Rightarrow> (state \<Rightarrow> result) list" where
  "configuration e projectName = drop 3 (pipeline e projectName)"

definition installs :: "env \<Rightarrow> string \<Rightarrow> (state \<Rightarrow> result) list" where
  "installs e projectName = take 13 (configuration e projectName)"

definition after_prettierrc :: "env \<Rightarrow> string \<Rightarrow> (state \<Rightarrow> result) list" where
  "after_prettierrc e projectName = drop 14 (configuration e projectName)"

definition before_chmod :: "env \<Rightarrow> string \<Rightarrow> (state \<Rightarrow> result) list" where
  "before_chmod e projectName = take 25 (pipeline e projectName)"

definition after_chmod :: "env \<Rightarrow> string \<Rightarrow> (state \<Rightarrow> result) list" where
  "after_chmod e projectName = drop 26 (pipeline e projectName)"

definition before_lint_staged :: "env \<Rightarrow> string \<Rightarrow> (state \<Rightarrow> result) list" where
  "before_lint_staged e projectName = take 21 (pipeline e projectName)"

definition hook_steps :: "env \<Rightarrow> string \<Rightarrow> (state \<Rightarrow> result) list" where
  "hook_steps e projectName = take 3 (drop 22 (pipeline e projectName))"

text \<open>The lines that \<open>printWarning\<close> and the closing \<open>printMessage\<close> print.\<close>

definition warning_line :: string where
  "warning_line =
     colors_yellow @ ''Warning:'' @ colors_reset @ '' Could not make pre-commit hook executable''"

definition complete_line :: string where
  "complete_line =
     colors_blue @ ''==>'' @ colors_reset @ '' '' @ colors_green @
     sparkles @ '' Project setup complete! '' @ sparkles @ colors_reset"

subsection \<open>Example runs\<close>

text \<open>
  \<^verbatim>\<open>node init.js demo\<close> on Linux, started in an empty directory, where every command
  succeeds, no file-system call throws, and \<^verbatim>\<open>ng new\<close> leaves the manifest below in the
  new project.  The manifest is a JSON text, so \<open>parse_text\<close> is not consulted.
\<close>

definition demo_manifest :: json where
  "demo_manifest = JObj
     [(''name'', JStr ''demo''),
      (''version'', JStr ''0.0.0''),
      (''scripts'', JObj
         [(''ng'', JStr ''ng''),
          (''start'', JStr ''ng serve''),
          (''build'', JStr ''ng build''),
          (''test'', JStr ''ng test''),
          (''lint'', JStr ''ng lint'')]),
      (''private'', JBool True)]"

definition demo_env :: env where
  "demo_env =
     \<lparr>argv = [''demo''],
      platform = ''linux'',
      init_files = Map.empty,
      exec = (\<lambda>command s.
        (Status 0,
         if command = ng_new ''demo''
         then (files s)(([''demo''], ''package.json'') \<mapsto> Json_text demo_manifest)
         else files s)),
      throws = (\<lambda>call p s. False),
      exists_sync = (\<lambda>p s. True),
      parse_text = (\<lambda>t. if t = ''{}'' then Some (JObj []) else None)\<rparr>"

text \<open>The same, but the third install command ends with status 2.\<close>

definition failing_env :: env where
  "failing_env = demo_env
     \<lparr>exec := (\<lambda>command s.
        (if command = ''ng add @angular-eslint/schematics --skip-confirmation''
         then Status 2 else Status 0, files s))\<rparr>"


text \<open>The same as the first, but \<^verbatim>\<open>chmodSync\<close> is refused.\<close>

definition denied_env :: env where
  "denied_env = demo_env\<lparr>throws := (\<lambda>call p s. call = ''chmodSync'')\<rparr>"

text \<open>
  \<^verbatim>\<open>chmodSync\<close> is refused, and \<^verbatim>\<open>package.json\<close> holds nothing but the number \<^verbatim>\<open>1e400\<close>,
  which \<^verbatim>\<open>JSON.parse\<close> reads as \<^verbatim>\<open>Infinity\<close>.
\<close>

definition overflow_env :: env where
  "overflow_env = denied_env
     \<lparr>exec := (\<lambda>command s.
        (Status 0,
         if command = ng_new ''demo''
         then (files s)(([''demo''], ''package.json'') \<mapsto> Text ''1e400'')
         else files s)),
      parse_text := (\<lambda>t. if t = ''1e400'' then Some (JInf False) else None)\<rparr>"

text \<open>
  A project whose manifest already has a \<^verbatim>\<open>lint\<close> script of its own and a
  \<^verbatim>\<open>lint-staged\<close> mapping.
\<close>

definition stale_manifest :: "(string \<times> json) list" where
  "stale_manifest =
     [(''name'', JStr ''demo''),
      (''scripts'', JObj [(''start'', JStr ''ng serve''), (''lint'', JStr ''eslint .'')]),
      (''lint-staged'', JObj [(''*.js'', JArr [JStr ''eslint''])])]"

definition stale_state :: state where
  "stale_state =
     \<lparr>cwd = [''demo''],
      files = [([''demo''], ''package.json'') \<mapsto> Json_text (JObj stale_manifest)],
      trace = []\<rparr>"

section \<open>Running lists of steps\<close>

lemma run_steps_append:
  "run_steps (fs @ gs) s =
     (case run_steps fs s of Next s' \<Rightarrow> run_steps gs s' | Halt out s' \<Rightarrow> Halt out s')"
  by (induction fs arbitrary: s) (auto split: result.splits)

text \<open>Where the first \<open>i\<close> steps went through, the run goes on with step \<open>i\<close>.\<close>

lemma run_steps_reached:
  assumes "i < length fs" and "run_steps (take i fs) s0 = Next s"
  shows "run_steps fs s0 =
           (case (fs ! i) s of
              Next s' \<Rightarrow> run_steps (drop (Suc i) fs) s'
            | Halt out s' \<Rightarrow> Halt out s')"
proof -
  from assms(1) have "fs = take i fs @ fs ! i # drop (Suc i) fs"
    by (simp add: id_take_nth_drop)
  then have "run_steps fs s0 = run_steps (take i fs @ fs ! i # drop (Suc i) fs) s0" by simp
  with assms(2) show ?thesis by (simp add: run_steps_append)
qed


lemma update_scripts_error: "update_scripts j = Inl x \<Longrightarrow> x = TypeError"
  by (cases j) (auto simp: update_scripts_def)

lemma pipeline_split: "pipeline e pn = generation e pn @ configuration e pn"
  by (simp add: generation_def configuration_def)

lemma configuration_split:
  "configuration e pn =
     installs e pn @ writeFileSync e ''.prettierrc'' (Json_text prettierConfig) # after_prettierrc e pn"
  by (simp add: installs_def after_prettierrc_def configuration_def pipeline_def)


lemma main_usage:
  "main e = (out, s) \<Longrightarrow> argv e = [] \<or> hd (argv e) = [] \<Longrightarrow>
   out = Exited 1 \<and> s = emit usage (start e)"
  by (cases "argv e") (auto simp: main_def usage_exit_def)

lemma never_halts_completed:
  "run_steps fs s0 = Halt out s1 \<Longrightarrow> \<forall>f\<in>set fs. \<forall>s s'. f s \<noteq> Halt Completed s' \<Longrightarrow>
   out \<noteq> Completed"
  by (induction fs arbitrary: s0) (auto split: result.splits)

lemma pipeline_never_halts_completed:
  "\<forall>f\<in>set (pipeline e pn). \<forall>s s'. f s \<noteq> Halt Completed s'"
  by (auto simp: pipeline_def summary_def printMessage_def printWarning_def console_log_def
      executeCommand_def chdir_def writeFileSync_def configure_lint_staged_def
      add_npm_scripts_def ensure_huskyDir_def make_executable_def crash_def Let_def
      split: prod.splits proc_status.splits sum.splits if_splits)

lemma main_completed:
  assumes "main e = (Completed, s)"
  shows "\<exists>pn rest. argv e = pn # rest \<and> pn \<noteq> [] \<and> run_steps (pipeline e pn) (start e) = Next s"
proof (cases "argv e")
  case Nil
  with assms show ?thesis by (simp add: main_def usage_exit_def)
next
  case (Cons pn rest)
  with assms have pn: "pn \<noteq> []" by (auto simp: main_def usage_exit_def)
  have "run_steps (pipeline e pn) (start e) = Next s"
  proof (cases "run_steps (pipeline e pn) (start e)")
    case (Next s')
    with assms Cons pn show ?thesis by (simp add: main_def)
  next
    case (Halt out s')
    with assms Cons pn have "out = Completed" by (simp add: main_def)
    with never_halts_completed[OF Halt pipeline_never_halts_completed] show ?thesis by simp
  qed
  with Cons pn show ?thesis by blast
qed

subsection \<open>Printed values\<close>




lemma JSON_parse_Json_text: "JSON_parse e (Json_text j) = Inr (printed j)"
  by (simp add: JSON_parse_def Json_text_def)

lemmas run_defs = main_def pipeline_def summary_def printMessage_def printWarning_def
  console_log_def executeCommand_def chdir_def writeFileSync_def readFileSync_def JSON_parse_def
  Json_text_def configure_lint_staged_def add_npm_scripts_def update_scripts_def
  ensure_huskyDir_def make_executable_def emit_def crash_def path_join_def huskyDir_def
  ng_new_def start_def usage_exit_def

section \<open>The argument check\<close>

text \<open>
  C2.  Started with no argument, the script prints the two usage lines on the error
  stream and exits with status 1: nothing else is in the trace (no command was run, no
  file written), and the files and the working directory are as they were.
\<close>

theorem usage_error_without_argument:
  assumes "argv e = []"
  shows "main e =
           (Exited 1,
            \<lparr>cwd = [], files = init_files e,
             trace = [Stderr ''Usage: npx ng-create-with-config <project-name>'',
                      Stderr ''   or: node init.js <project-name>'']\<rparr>)"
  using assms by (simp add: main_def usage_exit_def usage_def emit_def start_def)

theorem usage_error_without_argument_witness:
  "argv (demo_env\<lparr>argv := []\<rparr>) = [] \<and>
   main (demo_env\<lparr>argv := []\<rparr>) =
     (Exited 1,
      \<lparr>cwd = [], files = Map.empty,
       trace = [Stderr ''Usage: npx ng-create-with-config <project-name>'',
                Stderr ''   or: node init.js <project-name>'']\<rparr>)"
  using usage_error_without_argument[of "demo_env\<lparr>argv := []\<rparr>"]
  by (simp add: demo_env_def)

text \<open>
  C10.  An empty string as the only argument is treated as no argument at all: the run
  is the run without arguments, that is the usage message, exit status 1, and no effect
  on files or working directory.
\<close>

theorem empty_name_is_usage_error:
  assumes "argv e = ['''']"
  shows "main e = main (e\<lparr>argv := []\<rparr>) \<and>
         fst (main e) = Exited 1 \<and>
         trace (snd (main e)) = usage \<and>
         files (snd (main e)) = init_files e \<and>
         cwd (snd (main e)) = []"
  using assms by (simp add: main_def usage_exit_def emit_def start_def)

theorem empty_name_is_usage_error_witness:
  "argv (demo_env\<lparr>argv := ['''']\<rparr>) = [''''] \<and>
   main (demo_env\<lparr>argv := ['''']\<rparr>) = main (demo_env\<lparr>argv := []\<rparr>) \<and>
   fst (main (demo_env\<lparr>argv := ['''']\<rparr>)) = Exited 1 \<and>
   trace (snd (main (demo_env\<lparr>argv := ['''']\<rparr>))) = usage"
proof -
  have a: "argv (demo_env\<lparr>argv := ['''']\<rparr>) = ['''']" by simp
  have b: "demo_env\<lparr>argv := [''''], argv := []\<rparr> = demo_env\<lparr>argv := []\<rparr>" by simp
  from empty_name_is_usage_error[OF a] have
    "main (demo_env\<lparr>argv := ['''']\<rparr>) = main (demo_env\<lparr>argv := [''''], argv := []\<rparr>)"
    "fst (main (demo_env\<lparr>argv := ['''']\<rparr>)) = Exited 1"
    "trace (snd (main (demo_env\<lparr>argv := ['''']\<rparr>))) = usage"
    by blast+
  with a show ?thesis by (simp only: b)
qed

section \<open>Failing commands\<close>

text \<open>The nine steps of the script that run an external command, and the commands.\<close>

lemma command_steps:
  "map (\<lambda>i. pipeline e pn ! i) [1, 4, 5, 6, 7, 8, 9, 10, 11] =
   map (executeCommand e)
     [ng_new pn,
      ''npm install tailwindcss @tailwindcss/postcss postcss'',
      ''npm install -D @angular-eslint/schematics'',
      ''ng add @angular-eslint/schematics --skip-confirmation'',
      ''npm install prettier prettier-eslint eslint-config-prettier eslint-plugin-prettier --save-dev'',
      ''npm install eslint-plugin-unused-imports --save-dev'',
      ''npm install eslint-plugin-simple-import-sort --save-dev'',
      ''npm install -D lint-staged husky'',
      ''npx husky init'']"
  by (simp add: pipeline_def)

text \<open>
  C3.  Let the run with project name \<open>pn\<close> have gone through its first \<open>i\<close> steps and
  reached the state \<open>s\<close>, let step \<open>i\<close> be the call of \<open>executeCommand\<close> on a command
  \<open>c\<close>, and let the command, run in that state, end with a status \<open>n\<close> other than 0.
  Then the whole run ends with exit status 1, and its final state is \<open>s\<close> with the files
  as the command left them and two more events: the command, and the diagnostic
  \<^verbatim>\<open>Failed to execute: \<close> followed by the command.  No later step has run.
\<close>

theorem fail_fast:
  assumes "argv e = pn # rest" and "pn \<noteq> []"
    and "i < length (pipeline e pn)" and "pipeline e pn ! i = executeCommand e c"
    and "run_steps (take i (pipeline e pn)) (start e) = Next s"
    and "fst (exec e c s) = Status n" and "n \<noteq> 0"
  shows "main e =
           (Exited 1,
            s\<lparr>files := snd (exec e c s),
              trace := trace s @
                [Exec c (cwd s) (Status n), Stderr (''Failed to execute: '' @ c)]\<rparr>)"
proof -
  from assms(6) obtain fs where x: "exec e c s = (Status n, fs)"
    by (cases "exec e c s") auto
  from x assms(7) have "executeCommand e c s =
      Halt (Exited 1)
        (s\<lparr>files := fs,
           trace := trace s @ [Exec c (cwd s) (Status n), Stderr (''Failed to execute: '' @ c)]\<rparr>)"
    by (simp add: executeCommand_def emit_def)
  with run_steps_reached[OF assms(3,5)] assms(4)
  have "run_steps (pipeline e pn) (start e) =
      Halt (Exited 1)
        (s\<lparr>files := fs,
           trace := trace s @ [Exec c (cwd s) (Status n), Stderr (''Failed to execute: '' @ c)]\<rparr>)"
    by simp
  with assms(1,2) x show ?thesis by (simp add: main_def)
qed

lemma failing_reached:
  "\<exists>s. run_steps (take 6 (pipeline failing_env ''demo'')) (start failing_env) = Next s \<and>
     cwd s = [''demo''] \<and>
     trace s =
       [Stdout (colors_blue @ ''==>'' @ colors_reset @ '' '' @ colors_green @
          ''Creating Angular project: demo'' @ colors_reset),
        Exec ''ng new demo --routing --style=scss --skip-git'' [] (Status 0),
        Chdir ''demo'',
        Stdout (colors_blue @ ''==>'' @ colors_reset @ '' '' @ colors_green @
          ''Installing dependencies...'' @ colors_reset),
        Exec ''npm install tailwindcss @tailwindcss/postcss postcss'' [''demo''] (Status 0),
        Exec ''npm install -D @angular-eslint/schematics'' [''demo''] (Status 0)]"
  by (simp add: run_defs failing_env_def demo_env_def)

theorem fail_fast_witness:
  "\<exists>s. run_steps (take 6 (pipeline failing_env ''demo'')) (start failing_env) = Next s \<and>
     pipeline failing_env ''demo'' ! 6 =
       executeCommand failing_env ''ng add @angular-eslint/schematics --skip-confirmation'' \<and>
     fst (exec failing_env ''ng add @angular-eslint/schematics --skip-confirmation'' s) = Status 2 \<and>
     fst (main failing_env) = Exited 1 \<and>
     trace (snd (main failing_env)) = trace s @
       [Exec ''ng add @angular-eslint/schematics --skip-confirmation'' [''demo''] (Status 2),
        Stderr ''Failed to execute: ng add @angular-eslint/schematics --skip-confirmation'']"
proof -
  let ?c = "''ng add @angular-eslint/schematics --skip-confirmation''"
  from failing_reached obtain s where
    s: "run_steps (take 6 (pipeline failing_env ''demo'')) (start failing_env) = Next s"
    and d: "cwd s = [''demo'']"
    by (elim exE conjE) (rule that)
  have a: "argv failing_env = ''demo'' # []" "''demo'' \<noteq> []"
    by (simp_all add: failing_env_def demo_env_def)
  have i: "6 < length (pipeline failing_env ''demo'')"
    by (simp add: pipeline_def summary_def)
  have p: "pipeline failing_env ''demo'' ! 6 = executeCommand failing_env ?c"
    by (simp add: pipeline_def)
  have x: "fst (exec failing_env ?c s) = Status 2" by (simp add: failing_env_def)
  have n: "(2::nat) \<noteq> 0" by simp
  from fail_fast[OF a i p s x n] d have
    "fst (main failing_env) = Exited 1"
    "trace (snd (main failing_env)) = trace s @
       [Exec ?c [''demo''] (Status 2), Stderr (''Failed to execute: '' @ ?c)]"
    by simp_all
  with s p x show ?thesis by auto
qed

section \<open>The working directory\<close>

lemma stays_run_steps: "\<forall>f\<in>set fs. stays f \<Longrightarrow> stays (run_steps fs)"
proof (induction fs)
  case Nil
  then show ?case by (simp add: stays_def)
next
  case (Cons f fs)
  then have f: "stays f" and fs: "stays (run_steps fs)" by simp_all
  show ?case
    unfolding stays_def
  proof
    fix s :: state
    from f obtain evs where 1: "cwd (final (f s)) = cwd s" "trace (final (f s)) = trace s @ evs"
      "list_all (runs_in (cwd s)) evs"
      unfolding stays_def by blast
    show "cwd (final (run_steps (f # fs) s)) = cwd s \<and>
          (\<exists>evs. trace (final (run_steps (f # fs) s)) = trace s @ evs \<and>
             list_all (runs_in (cwd s)) evs)"
    proof (cases "f s")
      case (Next s1)
      from fs obtain evs' where 2: "cwd (final (run_steps fs s1)) = cwd s1"
        "trace (final (run_steps fs s1)) = trace s1 @ evs'" "list_all (runs_in (cwd s1)) evs'"
        unfolding stays_def by blast
      from 1 2 Next have "trace (final (run_steps (f # fs) s)) = trace s @ (evs @ evs')"
        "list_all (runs_in (cwd s)) (evs @ evs')" "cwd (final (run_steps (f # fs) s)) = cwd s"
        by simp_all
      then show ?thesis by blast
    next
      case (Halt out s1)
      with 1 show ?thesis by auto
    qed
  qed
qed

lemma stays_console_log: "stays (console_log m)"
  by (simp add: stays_def console_log_def emit_def)

lemma stays_printMessage: "stays (printMessage m)"
  by (simp add: printMessage_def stays_console_log)

lemma stays_executeCommand: "stays (executeCommand e c)"
  by (auto simp: stays_def executeCommand_def emit_def Let_def split: prod.splits proc_status.splits)

lemma stays_writeFileSync: "stays (writeFileSync e p c)"
  by (auto simp: stays_def writeFileSync_def emit_def crash_def)

lemma stays_configure_lint_staged: "stays (configure_lint_staged e)"
  by (auto simp: stays_def configure_lint_staged_def writeFileSync_def emit_def crash_def
      split: sum.splits)

lemma stays_add_npm_scripts: "stays (add_npm_scripts e)"
  by (auto simp: stays_def add_npm_scripts_def writeFileSync_def emit_def crash_def
      split: sum.splits)

lemma stays_ensure_huskyDir: "stays (ensure_huskyDir e)"
  by (auto simp: stays_def ensure_huskyDir_def emit_def crash_def)

lemma stays_make_executable: "stays (make_executable e p)"
  by (auto simp: stays_def make_executable_def printWarning_def console_log_def emit_def)

lemmas stays_steps = stays_console_log stays_printMessage stays_executeCommand stays_writeFileSync
  stays_configure_lint_staged stays_add_npm_scripts stays_ensure_huskyDir stays_make_executable


lemma stays_installs: "stays (run_steps (installs e pn))"
  by (rule stays_run_steps)
    (simp add: installs_def configuration_def pipeline_def summary_def stays_steps)



lemma generation_cwd: "run_steps (generation e pn) (start e) = Next s \<Longrightarrow> cwd s = [pn]"
  by (auto simp: generation_def pipeline_def printMessage_def console_log_def executeCommand_def
      chdir_def emit_def crash_def start_def Let_def
      split: prod.splits proc_status.splits if_splits)


lemma demo_completes: "fst (main demo_env) = Completed"
  by (simp add: run_defs demo_env_def demo_manifest_def)





section \<open>The formatter configuration\<close>

lemma keeps_run_steps: "\<forall>f\<in>set fs. keeps p f \<Longrightarrow> keeps p (run_steps fs)"
proof (induction fs)
  case Nil
  then show ?case by (simp add: keeps_def)
next
  case (Cons f fs)
  then have f: "keeps p f" and fs: "keeps p (run_steps fs)" by simp_all
  show ?case
    unfolding keeps_def
  proof (intro allI impI)
    fix s s' :: state
    assume r: "run_steps (f # fs) s = Next s'"
    then obtain s1 where 1: "f s = Next s1" "run_steps fs s1 = Next s'"
      by (auto split: result.splits)
    from f 1(1) have "cwd s1 = cwd s" "files s1 (cwd s, p) = files s (cwd s, p)"
      by (auto simp: keeps_def)
    moreover from fs 1(2) have "cwd s' = cwd s1" "files s' (cwd s1, p) = files s1 (cwd s1, p)"
      by (auto simp: keeps_def)
    ultimately show "cwd s' = cwd s \<and> files s' (cwd s, p) = files s (cwd s, p)" by simp
  qed
qed

lemma keeps_console_log: "keeps p (console_log m)"
  by (auto simp: keeps_def console_log_def emit_def)

lemma keeps_printMessage: "keeps p (printMessage m)"
  by (simp add: printMessage_def keeps_console_log)

lemma keeps_writeFileSync: "q \<noteq> p \<Longrightarrow> keeps p (writeFileSync e q c)"
  by (auto simp: keeps_def writeFileSync_def emit_def crash_def split: if_splits)

lemma keeps_configure_lint_staged: "p \<noteq> ''package.json'' \<Longrightarrow> keeps p (configure_lint_staged e)"
  by (auto simp: keeps_def configure_lint_staged_def writeFileSync_def emit_def crash_def
      split: sum.splits if_splits)

lemma keeps_add_npm_scripts: "p \<noteq> ''package.json'' \<Longrightarrow> keeps p (add_npm_scripts e)"
  by (auto simp: keeps_def add_npm_scripts_def writeFileSync_def emit_def crash_def
      split: sum.splits if_splits)

lemma keeps_ensure_huskyDir: "keeps p (ensure_huskyDir e)"
  by (auto simp: keeps_def ensure_huskyDir_def emit_def crash_def split: if_splits)

lemma keeps_make_executable: "keeps p (make_executable e q)"
  by (auto simp: keeps_def make_executable_def printWarning_def console_log_def emit_def
      split: if_splits)

lemmas keeps_steps = keeps_console_log keeps_printMessage keeps_writeFileSync
  keeps_configure_lint_staged keeps_add_npm_scripts keeps_ensure_huskyDir keeps_make_executable

lemma keeps_after_prettierrc: "keeps ''.prettierrc'' (run_steps (after_prettierrc e pn))"
  by (rule keeps_run_steps)
    (simp add: after_prettierrc_def configuration_def pipeline_def summary_def keeps_steps
      path_join_def huskyDir_def)

text \<open>
  C4.  After a run that reaches the end of the script, the file \<^verbatim>\<open>.prettierrc\<close> in the
  project directory parses as JSON to an object with \<^verbatim>\<open>tabWidth\<close> 2,
  \<^verbatim>\<open>singleQuote\<close> true, \<^verbatim>\<open>semi\<close> true, and one entry under \<^verbatim>\<open>overrides\<close>, for the files
  \<^verbatim>\<open>*.html\<close>, whose options choose the parser \<^verbatim>\<open>angular\<close>.
\<close>

theorem prettierrc_content:
  assumes "main e = (Completed, s)"
  shows "\<exists>c ps ov. files s ([hd (argv e)], ''.prettierrc'') = Some c \<and>
           JSON_parse e c = Inr (JObj ps) \<and>
           map_of ps ''tabWidth'' = Some (JNum 2) \<and>
           map_of ps ''singleQuote'' = Some (JBool True) \<and>
           map_of ps ''semi'' = Some (JBool True) \<and>
           map_of ps ''overrides'' = Some (JArr [JObj ov]) \<and>
           map_of ov ''files'' = Some (JStr ''*.html'') \<and>
           map_of ov ''options'' = Some (JObj [(''parser'', JStr ''angular'')])"
proof -
  from main_completed[OF assms] obtain pn rest where
    a: "argv e = pn # rest" "pn \<noteq> []" and r: "run_steps (pipeline e pn) (start e) = Next s"
    by blast
  from r obtain s1 s2 s3 where
    g: "run_steps (generation e pn) (start e) = Next s1" and
    i: "run_steps (installs e pn) s1 = Next s2" and
    w: "writeFileSync e ''.prettierrc'' (Json_text prettierConfig) s2 = Next s3" and
    t: "run_steps (after_prettierrc e pn) s3 = Next s"
    by (auto simp: pipeline_split configuration_split run_steps_append split: result.splits)
  from generation_cwd[OF g] have "cwd s1 = [pn]" .
  moreover from stays_installs[of e pn] i have "cwd s2 = cwd s1"
    unfolding stays_def by (metis final.simps(1))
  ultimately have c2: "cwd s2 = [pn]" by simp
  from w c2 have "cwd s3 = [pn]" "files s3 ([pn], ''.prettierrc'') = Some (Json_text prettierConfig)"
    by (auto simp: writeFileSync_def emit_def crash_def split: if_splits)
  moreover from keeps_after_prettierrc[of e pn] t
  have "files s (cwd s3, ''.prettierrc'') = files s3 (cwd s3, ''.prettierrc'')"
    unfolding keeps_def by blast
  ultimately have f: "files s ([pn], ''.prettierrc'') = Some (Json_text prettierConfig)"
    by simp
  have "printed prettierConfig = prettierConfig" by (simp add: prettierConfig_def)
  then have "JSON_parse e (Json_text prettierConfig) = Inr prettierConfig"
    by (simp add: JSON_parse_Json_text)
  with f a show ?thesis by (simp add: prettierConfig_def)
qed

theorem prettierrc_content_witness:
  "main demo_env = (Completed, snd (main demo_env)) \<and>
   (\<exists>c ps ov. files (snd (main demo_env)) ([''demo''], ''.prettierrc'') = Some c \<and>
      JSON_parse demo_env c = Inr (JObj ps) \<and>
      map_of ps ''tabWidth'' = Some (JNum 2) \<and>
      map_of ps ''singleQuote'' = Some (JBool True) \<and>
      map_of ps ''semi'' = Some (JBool True) \<and>
      map_of ps ''overrides'' = Some (JArr [JObj ov]) \<and>
      map_of ov ''files'' = Some (JStr ''*.html'') \<and>
      map_of ov ''options'' = Some (JObj [(''parser'', JStr ''angular'')]))"
proof -
  have m: "main demo_env = (Completed, snd (main demo_env))"
    using demo_completes by (metis surjective_pairing)
  have "hd (argv demo_env) = ''demo''" by (simp add: demo_env_def)
  with prettierrc_content[OF m] m show ?thesis by simp
qed


section \<open>The executable bit of the hook\<close>

lemma before_chmod_split:
  "before_chmod e pn = before_lint_staged e pn @ configure_lint_staged e # hook_steps e pn"
  by (simp add: before_lint_staged_def hook_steps_def before_chmod_def pipeline_def)

lemma keeps_hook_steps: "keeps ''package.json'' (run_steps (hook_steps e pn))"
  by (rule keeps_run_steps)
    (simp add: hook_steps_def pipeline_def keeps_steps path_join_def huskyDir_def)

lemma configure_lint_staged_leaves:
  assumes "configure_lint_staged e s = Next s'"
  shows "cwd s' = cwd s \<and> (\<exists>j. files s' (cwd s, ''package.json'') = Some (Json_text j))"
proof -
  from assms obtain j' where
    "writeFileSync e ''package.json'' (Json_text j') s = Next s'"
    by (auto simp: configure_lint_staged_def crash_def split: sum.splits)
  then show ?thesis
    by (auto simp: writeFileSync_def emit_def crash_def split: if_splits)
qed

text \<open>
  Where the run reaches the \<^verbatim>\<open>chmodSync\<close> block, \<^verbatim>\<open>package.json\<close> holds what the first
  rewrite printed.
\<close>

lemma before_chmod_leaves:
  assumes "run_steps (before_chmod e pn) s0 = Next s1"
  shows "\<exists>j. files s1 (cwd s1, ''package.json'') = Some (Json_text j)"
proof -
  from assms obtain sa sb where
    c: "configure_lint_staged e sa = Next sb" and h: "run_steps (hook_steps e pn) sb = Next s1"
    by (auto simp: before_chmod_split run_steps_append split: result.splits)
  from configure_lint_staged_leaves[OF c] obtain j where
    j: "cwd sb = cwd sa" "files sb (cwd sa, ''package.json'') = Some (Json_text j)"
    by blast
  from keeps_hook_steps[of e pn] h
  have "cwd s1 = cwd sb" "files s1 (cwd sb, ''package.json'') = files sb (cwd sb, ''package.json'')"
    unfolding keeps_def by blast+
  with j have "files s1 (cwd s1, ''package.json'') = Some (Json_text j)" by simp
  then show ?thesis ..
qed

lemma update_scripts_object: "j \<noteq> JNull \<Longrightarrow> \<exists>j'. update_scripts j = Inr j'"
  by (cases j) (simp_all add: update_scripts_def)

lemma after_chmod_completes:
  assumes "files s (cwd s, ''package.json'') = Some (Json_doc j)" and "j \<noteq> JNull"
    and "\<forall>t. \<not> throws e ''readFileSync'' (cwd s, ''package.json'') t"
    and "\<forall>t. \<not> throws e ''writeFileSync'' (cwd s, ''package.json'') t"
  shows "\<exists>s' evs. run_steps (after_chmod e pn) s = Next s' \<and> trace s' = trace s @ evs \<and>
           Stdout complete_line \<in> set evs \<and> last evs = Stdout ''  npm start''"
proof -
  from update_scripts_object[OF assms(2)] obtain j' where "update_scripts j = Inr j'" by blast
  with assms(1,3,4) show ?thesis
    by (simp add: after_chmod_def pipeline_def summary_def add_npm_scripts_def
        readFileSync_def JSON_parse_def writeFileSync_def printMessage_def console_log_def
        emit_def complete_line_def)
qed

text \<open>
  C8.  Let the run with project name \<open>pn\<close> have gone through its first 25 steps and reached
  the \<^verbatim>\<open>chmodSync\<close> block in the state \<open>s1\<close>, on a platform other than \<^verbatim>\<open>win32\<close>, and let
  \<^verbatim>\<open>chmodSync\<close> on the hook throw there.  Then the exception is caught, the next event is
  the warning, and the run goes on to the end of the script and ends with status 0: the
  closing message is printed and the last line is the last line of the script.  Two
  things are assumed of the scripts step that follows, which has no \<^verbatim>\<open>try\<close> of its own: the
  file system lets \<^verbatim>\<open>package.json\<close> be read and written, and the manifest that the first
  rewrite printed is not \<^verbatim>\<open>null\<close> (it is \<^verbatim>\<open>null\<close> where \<^verbatim>\<open>package.json\<close> held nothing but a
  number beyond the range of a double).
\<close>

theorem chmod_failure_is_not_fatal:
  assumes "argv e = pn # rest" and "pn \<noteq> []"
    and "run_steps (take 25 (pipeline e pn)) (start e) = Next s1"
    and "platform e \<noteq> ''win32''"
    and "throws e ''chmodSync'' (cwd s1, path_join e huskyDir ''pre-commit'') s1"
    and "files s1 (cwd s1, ''package.json'') \<noteq> Some (Json_text JNull)"
    and "\<forall>t. \<not> throws e ''readFileSync'' (cwd s1, ''package.json'') t"
    and "\<forall>t. \<not> throws e ''writeFileSync'' (cwd s1, ''package.json'') t"
  shows "\<exists>s rest'. main e = (Completed, s) \<and>
           trace s = trace s1 @
             Threw (FsError ''chmodSync'' (cwd s1, path_join e huskyDir ''pre-commit'')) #
             Stdout warning_line # rest' \<and>
           Stdout complete_line \<in> set rest' \<and> last rest' = Stdout ''  npm start''"
proof -
  let ?p = "path_join e huskyDir ''pre-commit''"
  let ?s2 = "emit [Threw (FsError ''chmodSync'' (cwd s1, ?p)), Stdout warning_line] s1"
  have i: "25 < length (pipeline e pn)" by (simp add: pipeline_def summary_def)
  have p: "pipeline e pn ! 25 = make_executable e ?p" by (simp add: pipeline_def)
  from assms(4,5) have mk: "make_executable e ?p s1 = Next ?s2"
    by (simp add: make_executable_def printWarning_def console_log_def emit_def warning_line_def)
  from run_steps_reached[OF i assms(3)] p mk
  have r: "run_steps (pipeline e pn) (start e) = run_steps (after_chmod e pn) ?s2"
    by (simp add: after_chmod_def)
  from assms(3) have "run_steps (before_chmod e pn) (start e) = Next s1"
    by (simp add: before_chmod_def)
  from before_chmod_leaves[OF this] obtain j where
    j: "files s1 (cwd s1, ''package.json'') = Some (Json_text j)" by blast
  with assms(6) have n: "printed j \<noteq> JNull" by (auto simp: Json_text_def)
  from j have f: "files ?s2 (cwd ?s2, ''package.json'') = Some (Json_doc (printed j))"
    by (simp add: emit_def Json_text_def)
  from assms(7,8) have
    "\<forall>t. \<not> throws e ''readFileSync'' (cwd ?s2, ''package.json'') t"
    "\<forall>t. \<not> throws e ''writeFileSync'' (cwd ?s2, ''package.json'') t"
    by (simp_all add: emit_def)
  from after_chmod_completes[OF f n this, of pn] obtain s evs where
    c: "run_steps (after_chmod e pn) ?s2 = Next s" "trace s = trace ?s2 @ evs"
      "Stdout complete_line \<in> set evs" "last evs = Stdout ''  npm start''"
    by blast
  from c(1) r assms(1,2) have "main e = (Completed, s)" by (simp add: main_def)
  moreover from c(2) have
    "trace s = trace s1 @ Threw (FsError ''chmodSync'' (cwd s1, ?p)) # Stdout warning_line # evs"
    by (simp add: emit_def)
  ultimately show ?thesis using c(3,4) by blast
qed

lemma denied_reached:
  "\<exists>s1. run_steps (take 25 (pipeline denied_env ''demo'')) (start denied_env) = Next s1 \<and>
     cwd s1 = [''demo''] \<and>
     (\<exists>ps. files s1 ([''demo''], ''package.json'') = Some (Json_doc (JObj ps)))"
  by (simp add: run_defs denied_env_def demo_env_def demo_manifest_def)

theorem chmod_failure_is_not_fatal_witness:
  "\<exists>s1. run_steps (take 25 (pipeline denied_env ''demo'')) (start denied_env) = Next s1 \<and>
     throws denied_env ''chmodSync'' ([''demo''], ''.husky/pre-commit'') s1 \<and>
     files s1 ([''demo''], ''package.json'') \<noteq> Some (Json_text JNull) \<and>
     (\<exists>s rest'. main denied_env = (Completed, s) \<and>
        trace s = trace s1 @
          Threw (FsError ''chmodSync'' ([''demo''], ''.husky/pre-commit'')) #
          Stdout warning_line # rest' \<and>
        Stdout complete_line \<in> set rest' \<and> last rest' = Stdout ''  npm start'')"
proof -
  from denied_reached obtain s1 ps where
    r: "run_steps (take 25 (pipeline denied_env ''demo'')) (start denied_env) = Next s1"
    and d: "cwd s1 = [''demo'']"
    and f: "files s1 ([''demo''], ''package.json'') = Some (Json_doc (JObj ps))"
    by (elim exE conjE) (rule that)
  have a: "argv denied_env = ''demo'' # []" "''demo'' \<noteq> []"
    by (simp_all add: denied_env_def demo_env_def)
  have w: "platform denied_env \<noteq> ''win32''" by (simp add: denied_env_def demo_env_def)
  have q: "path_join denied_env huskyDir ''pre-commit'' = ''.husky/pre-commit''"
    by (simp add: path_join_def huskyDir_def denied_env_def demo_env_def)
  have c: "throws denied_env ''chmodSync'' (cwd s1, path_join denied_env huskyDir ''pre-commit'') s1"
    by (simp add: denied_env_def)
  from f d have n: "files s1 (cwd s1, ''package.json'') \<noteq> Some (Json_text JNull)"
    by (simp add: Json_text_def)
  have rw: "\<forall>t. \<not> throws denied_env ''readFileSync'' (cwd s1, ''package.json'') t"
    "\<forall>t. \<not> throws denied_env ''writeFileSync'' (cwd s1, ''package.json'') t"
    by (simp_all add: denied_env_def)
  from chmod_failure_is_not_fatal[OF a r w c n rw] obtain s rest' where
    "main denied_env = (Completed, s)"
    "trace s = trace s1 @
       Threw (FsError ''chmodSync'' (cwd s1, path_join denied_env huskyDir ''pre-commit'')) #
       Stdout warning_line # rest'"
    "Stdout complete_line \<in> set rest'" "last rest' = Stdout ''  npm start''"
    by (elim exE conjE) (rule that)
  with r c n d q show ?thesis by auto
qed

text \<open>
  The run that the last assumption leaves out: \<^verbatim>\<open>package.json\<close> holds \<^verbatim>\<open>1e400\<close>, the first
  rewrite prints \<^verbatim>\<open>null\<close>, the warning is printed, and the scripts step then reads
  \<^verbatim>\<open>null\<close> and ends the process with a TypeError.
\<close>

lemma overflowing_manifest_run:
  "fst (main overflow_env) = Crashed TypeError \<and>
   Stdout warning_line \<in> set (trace (snd (main overflow_env))) \<and>
   files (snd (main overflow_env)) ([''demo''], ''package.json'') = Some (Json_text JNull)"
  by (simp add: run_defs overflow_env_def denied_env_def demo_env_def warning_line_def)

section \<open>The two rewrites of the manifest\<close>

lemma configure_lint_staged_object:
  assumes "readFileSync e ''package.json'' s = Inr c" and "JSON_parse e c = Inr (JObj ps)"
    and "\<not> throws e ''writeFileSync'' (cwd s, ''package.json'') s"
  shows "\<exists>s'. configure_lint_staged e s = Next s' \<and> cwd s' = cwd s \<and>
           files s' (cwd s, ''package.json'') =
             Some (Json_text (JObj (AList.update ''lint-staged'' lint_staged ps)))"
  using assms by (simp add: configure_lint_staged_def writeFileSync_def emit_def)

lemma stale_read:
  "readFileSync demo_env ''package.json'' stale_state = Inr (Json_text (JObj stale_manifest))"
  "JSON_parse demo_env (Json_text (JObj stale_manifest)) = Inr (JObj stale_manifest)"
  "\<not> throws demo_env ''writeFileSync'' (cwd stale_state, ''package.json'') stale_state"
  by (simp_all add: readFileSync_def JSON_parse_Json_text stale_state_def stale_manifest_def
      demo_env_def)

text \<open>
  C5.  Where the manifest read is an object and the write does not throw, the first
  rewrite goes on, and the manifest it leaves has under \<^verbatim>\<open>lint-staged\<close> exactly three
  rules: \<^verbatim>\<open>*.ts\<close> with \<^verbatim>\<open>eslint --fix\<close> then \<^verbatim>\<open>prettier --write\<close>, and \<^verbatim>\<open>*.html\<close> and
  \<^verbatim>\<open>*.scss\<close> with \<^verbatim>\<open>prettier --write\<close> alone.  Every other key of the manifest is as it
  was read.
\<close>

theorem lint_staged_three_rules:
  assumes "readFileSync e ''package.json'' s = Inr c" and "JSON_parse e c = Inr (JObj ps)"
    and "\<not> throws e ''writeFileSync'' (cwd s, ''package.json'') s"
  shows "\<exists>s' ps'. configure_lint_staged e s = Next s' \<and>
           files s' (cwd s, ''package.json'') = Some (Json_text (JObj ps')) \<and>
           map_of ps' ''lint-staged'' = Some (JObj
             [(''*.ts'', JArr [JStr ''eslint --fix'', JStr ''prettier --write'']),
              (''*.html'', JArr [JStr ''prettier --write'']),
              (''*.scss'', JArr [JStr ''prettier --write''])]) \<and>
           (\<forall>k. k \<noteq> ''lint-staged'' \<longrightarrow> map_of ps' k = map_of ps k)"
proof -
  from configure_lint_staged_object[OF assms] obtain s' where
    "configure_lint_staged e s = Next s'"
    "files s' (cwd s, ''package.json'') =
       Some (Json_text (JObj (AList.update ''lint-staged'' lint_staged ps)))"
    by blast
  moreover have "map_of (AList.update ''lint-staged'' lint_staged ps) ''lint-staged'' = Some lint_staged"
    by (simp add: update_conv')
  moreover have "\<forall>k. k \<noteq> ''lint-staged'' \<longrightarrow>
      map_of (AList.update ''lint-staged'' lint_staged ps) k = map_of ps k"
    by (simp add: update_conv')
  ultimately show ?thesis unfolding lint_staged_def by blast
qed

theorem lint_staged_three_rules_witness:
  "\<exists>s' ps'. configure_lint_staged demo_env stale_state = Next s' \<and>
     files s' ([''demo''], ''package.json'') = Some (Json_text (JObj ps')) \<and>
     map_of ps' ''lint-staged'' = Some (JObj
       [(''*.ts'', JArr [JStr ''eslint --fix'', JStr ''prettier --write'']),
        (''*.html'', JArr [JStr ''prettier --write'']),
        (''*.scss'', JArr [JStr ''prettier --write''])]) \<and>
     map_of ps' ''name'' = Some (JStr ''demo'')"
proof -
  have "cwd stale_state = [''demo'']" "map_of stale_manifest ''name'' = Some (JStr ''demo'')"
    by (simp_all add: stale_state_def stale_manifest_def)
  moreover from lint_staged_three_rules[OF stale_read] obtain s' ps' where
    "configure_lint_staged demo_env stale_state = Next s'"
    "files s' (cwd stale_state, ''package.json'') = Some (Json_text (JObj ps'))"
    "map_of ps' ''lint-staged'' = Some (JObj
       [(''*.ts'', JArr [JStr ''eslint --fix'', JStr ''prettier --write'']),
        (''*.html'', JArr [JStr ''prettier --write'']),
        (''*.scss'', JArr [JStr ''prettier --write''])])"
    "\<forall>k. k \<noteq> ''lint-staged'' \<longrightarrow> map_of ps' k = map_of stale_manifest k"
    by (elim exE conjE) (rule that)
  moreover from this(4) have "map_of ps' ''name'' = map_of stale_manifest ''name''" by simp
  ultimately show ?thesis by auto
qed

lemma merged_scripts_object:
  "\<exists>sc'. merged_scripts (Some (JObj sc)) = JObj sc' \<and>
     map_of sc' ''lint'' = Some (JStr ''ng lint'') \<and>
     (\<forall>k. k \<notin> {''lint'', ''lint:fix'', ''format''} \<longrightarrow> map_of sc' k = map_of sc k)"
  by (simp add: merged_scripts_def update_conv')

lemma merged_scripts_again:
  "merged_scripts (Some (merged_scripts x)) = merged_scripts x"
proof -
  obtain l where l: "merged_scripts x = JObj l" by (simp add: merged_scripts_def)
  then have "map_of l ''lint'' = Some (JStr ''ng lint'')"
    "map_of l ''lint:fix'' = Some (JStr ''ng lint --fix'')"
    \<open>map_of l ''format'' = Some (JStr ''prettier --write "src/**/*.{ts,html,scss}"'')\<close>
    by (auto simp: merged_scripts_def update_conv')
  then have "merged_scripts (Some (JObj l)) = JObj l"
    by (simp add: merged_scripts_def update_triv)
  with l show ?thesis by simp
qed


text \<open>
  C9.  Where the manifest read already has a mapping under \<^verbatim>\<open>lint-staged\<close>, the first
  rewrite leaves under that key exactly the three rules, \<^verbatim>\<open>*.ts\<close> with \<^verbatim>\<open>eslint --fix\<close>
  then \<^verbatim>\<open>prettier --write\<close>, and \<^verbatim>\<open>*.html\<close> and \<^verbatim>\<open>*.scss\<close> with \<^verbatim>\<open>prettier --write\<close>,
  whatever the old mapping was: no entry of the old mapping under another name is left.
  The same old mapping handed to the scripts merge would keep every entry whose name is
  not one of the three merged names.
\<close>

theorem lint_staged_replaced_wholesale:
  assumes "readFileSync e ''package.json'' s = Inr c" and "JSON_parse e c = Inr (JObj ps)"
    and "map_of ps ''lint-staged'' = Some (JObj old)"
    and "configure_lint_staged e s = Next s'"
  shows "\<exists>ps' new. files s' (cwd s, ''package.json'') = Some (Json_text (JObj ps')) \<and>
           map_of ps' ''lint-staged'' = Some (JObj new) \<and>
           new =
             [(''*.ts'', JArr [JStr ''eslint --fix'', JStr ''prettier --write'']),
              (''*.html'', JArr [JStr ''prettier --write'']),
              (''*.scss'', JArr [JStr ''prettier --write''])] \<and>
           (\<forall>k. k \<notin> {''*.ts'', ''*.html'', ''*.scss''} \<longrightarrow> map_of new k = None) \<and>
           (\<exists>kept. merged_scripts (Some (JObj old)) = JObj kept \<and>
              (\<forall>k. k \<notin> {''lint'', ''lint:fix'', ''format''} \<longrightarrow> map_of kept k = map_of old k))"
proof -
  let ?new = "[(''*.ts'', JArr [JStr ''eslint --fix'', JStr ''prettier --write'']),
              (''*.html'', JArr [JStr ''prettier --write'']),
              (''*.scss'', JArr [JStr ''prettier --write''])]"
  let ?ps' = "AList.update ''lint-staged'' lint_staged ps"
  from assms(1,2,4) have 1: "files s' (cwd s, ''package.json'') = Some (Json_text (JObj ?ps'))"
    by (auto simp: configure_lint_staged_def writeFileSync_def emit_def crash_def split: if_splits)
  have 2: "map_of ?ps' ''lint-staged'' = Some (JObj ?new)"
    by (simp add: update_conv' lint_staged_def)
  have 3: "\<forall>k. k \<notin> {''*.ts'', ''*.html'', ''*.scss''} \<longrightarrow> map_of ?new k = None"
    by simp
  from merged_scripts_object[of old] obtain kept where
    4: "merged_scripts (Some (JObj old)) = JObj kept"
      "\<forall>k. k \<notin> {''lint'', ''lint:fix'', ''format''} \<longrightarrow> map_of kept k = map_of old k"
    by (elim exE conjE) (rule that)
  from 4 have 5: "\<exists>kept. merged_scripts (Some (JObj old)) = JObj kept \<and>
      (\<forall>k. k \<notin> {''lint'', ''lint:fix'', ''format''} \<longrightarrow> map_of kept k = map_of old k)"
    by (intro exI[of _ kept] conjI)
  show ?thesis
    apply (rule exI[of _ ?ps'], rule exI[of _ ?new])
    using 1 2 3 5 by (intro conjI refl)
qed

theorem lint_staged_replaced_wholesale_witness:
  "map_of stale_manifest ''lint-staged'' = Some (JObj [(''*.js'', JArr [JStr ''eslint''])]) \<and>
   (\<exists>s' ps' new. configure_lint_staged demo_env stale_state = Next s' \<and>
      files s' ([''demo''], ''package.json'') = Some (Json_text (JObj ps')) \<and>
      map_of ps' ''lint-staged'' = Some (JObj new) \<and>
      new =
        [(''*.ts'', JArr [JStr ''eslint --fix'', JStr ''prettier --write'']),
         (''*.html'', JArr [JStr ''prettier --write'']),
         (''*.scss'', JArr [JStr ''prettier --write''])] \<and>
      map_of new ''*.js'' = None)"
proof -
  have old: "map_of stale_manifest ''lint-staged'' = Some (JObj [(''*.js'', JArr [JStr ''eslint''])])"
    by (simp add: stale_manifest_def)
  from configure_lint_staged_object[OF stale_read] obtain s' where
    s': "configure_lint_staged demo_env stale_state = Next s'" by blast
  have c: "cwd stale_state = [''demo'']" by (simp add: stale_state_def)
  from lint_staged_replaced_wholesale[OF stale_read(1,2) old s'] obtain ps' new where
    r: "files s' (cwd stale_state, ''package.json'') = Some (Json_text (JObj ps'))"
      "map_of ps' ''lint-staged'' = Some (JObj new)"
      "new =
         [(''*.ts'', JArr [JStr ''eslint --fix'', JStr ''prettier --write'']),
          (''*.html'', JArr [JStr ''prettier --write'']),
          (''*.scss'', JArr [JStr ''prettier --write''])]"
      "\<forall>k. k \<notin> {''*.ts'', ''*.html'', ''*.scss''} \<longrightarrow> map_of new k = None"
    by (elim exE conjE) (rule that)
  from r(4) have js: "map_of new ''*.js'' = None" by simp
  from r(1) c have f: "files s' ([''demo''], ''package.json'') = Some (Json_text (JObj ps'))"
    by simp
  have
    "\<exists>s' ps' new. configure_lint_staged demo_env stale_state = Next s' \<and>
      files s' ([''demo''], ''package.json'') = Some (Json_text (JObj ps')) \<and>
      map_of ps' ''lint-staged'' = Some (JObj new) \<and>
      new =
        [(''*.ts'', JArr [JStr ''eslint --fix'', JStr ''prettier --write'']),
         (''*.html'', JArr [JStr ''prettier --write'']),
         (''*.scss'', JArr [JStr ''prettier --write''])] \<and>
      map_of new ''*.js'' = None"
    apply (rule exI[of _ s'], rule exI[of _ ps'], rule exI[of _ new])
    using s' f r(2,3) js by (intro conjI)
  with old show ?thesis by (rule conjI)
qed






section \<open>The scripts the run leaves in the manifest\<close>

lemma merged_scripts_names:
  "\<exists>sc'. merged_scripts x = JObj sc' \<and>
     fst ` set sc' = fst ` set (spread x) \<union> {''lint'', ''lint:fix'', ''format''}"
  by (auto simp: merged_scripts_def dom_update)

lemma demo_package_json:
  "files (snd (main demo_env)) ([''demo''], ''package.json'') =
     Some (Json_text (JObj
       [(''name'', JStr ''demo''),
        (''version'', JStr ''0.0.0''),
        (''scripts'', merged_scripts (Some (JObj
           [(''ng'', JStr ''ng''),
            (''start'', JStr ''ng serve''),
            (''build'', JStr ''ng build''),
            (''test'', JStr ''ng test''),
            (''lint'', JStr ''ng lint'')]))),
        (''private'', JBool True),
        (''lint-staged'', lint_staged)]))"
  by (simp add: run_defs demo_env_def demo_manifest_def merged_scripts_def lint_staged_def)

lemma demo_advert:
  "Stdout ''  npm run format:check - Check code formatting'' \<in> set (trace (snd (main demo_env)))"
  by (simp add: run_defs demo_env_def demo_manifest_def)

text \<open>
  C1.  The scripts step merges three names, \<^verbatim>\<open>lint\<close>, \<^verbatim>\<open>lint:fix\<close> and \<^verbatim>\<open>format\<close>, not
  four.  In the run \<^verbatim>\<open>node init.js demo\<close> where everything succeeds, the manifest left
  behind has the \<^verbatim>\<open>lint-staged\<close> key and the scripts of the generated project followed by
  \<^verbatim>\<open>lint:fix\<close> and \<^verbatim>\<open>format\<close>; it has no \<^verbatim>\<open>format:check\<close> script, although the closing
  message of the same run lists \<^verbatim>\<open>npm run format:check\<close> among the available commands.
\<close>

theorem format_check_script_missing:
  "fst (main demo_env) = Completed \<and>
   (\<exists>ps sc. files (snd (main demo_env)) ([''demo''], ''package.json'') = Some (Json_text (JObj ps)) \<and>
      map_of ps ''lint-staged'' = Some lint_staged \<and>
      map_of ps ''scripts'' = Some (JObj sc) \<and>
      map fst sc = [''ng'', ''start'', ''build'', ''test'', ''lint'', ''lint:fix'', ''format''] \<and>
      map_of sc ''format:check'' = None) \<and>
   Stdout ''  npm run format:check - Check code formatting'' \<in> set (trace (snd (main demo_env)))"
proof -
  let ?sc = "[(''ng'', JStr ''ng''),
              (''start'', JStr ''ng serve''),
              (''build'', JStr ''ng build''),
              (''test'', JStr ''ng test''),
              (''lint'', JStr ''ng lint'')]"
  let ?ps = "[(''name'', JStr ''demo''),
              (''version'', JStr ''0.0.0''),
              (''scripts'', merged_scripts (Some (JObj ?sc))),
              (''private'', JBool True),
              (''lint-staged'', lint_staged)]"
  obtain sc where sc: "merged_scripts (Some (JObj ?sc)) = JObj sc"
    by (simp add: merged_scripts_def)
  then have
    "map fst sc = [''ng'', ''start'', ''build'', ''test'', ''lint'', ''lint:fix'', ''format'']"
    "map_of sc ''format:check'' = None"
    by (auto simp: merged_scripts_def)
  moreover have "map_of ?ps ''lint-staged'' = Some lint_staged" by simp
  moreover from sc have "map_of ?ps ''scripts'' = Some (JObj sc)" by simp
  moreover note demo_package_json
  ultimately have
    "\<exists>ps sc. files (snd (main demo_env)) ([''demo''], ''package.json'') = Some (Json_text (JObj ps)) \<and>
      map_of ps ''lint-staged'' = Some lint_staged \<and>
      map_of ps ''scripts'' = Some (JObj sc) \<and>
      map fst sc = [''ng'', ''start'', ''build'', ''test'', ''lint'', ''lint:fix'', ''format''] \<and>
      map_of sc ''format:check'' = None"
    apply -
    apply (rule exI[of _ ?ps], rule exI[of _ sc])
    by (intro conjI)
  with demo_completes demo_advert show ?thesis by (intro conjI)
qed

end
